theory Spec2Isabelle
  imports Main
begin

section \<open>The greeting addon of hello.cc\<close>

text \<open>
  hello.cc is a native addon for Node.js: one callback, \<open>Method\<close>, registered by
  \<open>init\<close> under the name "hello". The callback reads its first argument through the
  V8 interface, prefixes it with "hello " and hands the result back:
  \<^verbatim>\<open>
  void Method(const FunctionCallbackInfo<Value>& args) {
    v8::String::Utf8Value nameFromArgs(args[0]->ToString());
    std::string name = std::string(*nameFromArgs);
    std::string response = "hello " + name;

    args.GetReturnValue().Set(Nan::New(response).ToLocalChecked());
  }
  \<close>
  Each call of that statement sequence is a definition below, in the order of the
  source. The V8, NAN and Node functions it calls are not part of the repository; they
  are modelled by what they are documented to do, as far as the addon observes it.
\<close>

subsection \<open>Values of the host\<close>

text \<open>
  A JavaScript string is represented by the bytes that \<open>Utf8Value\<close> writes for it, the
  form in which the addon reads it: the UTF-8 sequences of its code points, where a
  surrogate that has no partner is written as the three bytes of its own code point (so
  U+D800 is \<open>ED A0 80\<close>). The NUL character U+0000 is the byte \<open>CHR 0x00\<close>, and
  \<open>length\<close> counts bytes of UTF-8. A string of well-formed Unicode text is one whose
  bytes are well-formed UTF-8 (\<open>well_formed_utf8\<close> below).

  The other kinds of value matter only through the runtime's string conversion. A number
  carries the text that conversion gives for it. An object carries its conversion, which
  is code of the caller: run on the state of the host, it gives the text, or nothing when
  it throws, and the state it leaves behind. A symbol has no conversion. The type \<open>'g\<close>
  is the state of the host that all code shares (its heap and globals).
\<close>

datatype 'g js_value =
    JSUndefined
  | JSNull
  | JSBoolean bool
  | JSNumber string
  | JSString string
  | JSSymbol
  | JSObject "'g \<Rightarrow> string option \<times> 'g"

text \<open>
  The two ways in which the callback can end the process instead of returning: a
  \<open>std::string\<close> constructed from a null character pointer, and \<open>ToLocalChecked\<close> on
  an empty \<open>MaybeLocal\<close>. Exhaustion of memory is not modelled.
\<close>

datatype abort = NullCharPointer | EmptyMaybeLocal

text \<open>
  \<open>FunctionCallbackInfo\<close>: the isolate the call runs in (\<open>args.GetIsolate()\<close>, the
  shared state of the host), the arguments of the call and the slot for its return
  value.
\<close>

record 'g FunctionCallbackInfo =
  isolate :: 'g
  arguments :: "'g js_value list"
  return_value :: "'g js_value"

text \<open>
  \<open>args[i]\<close>: V8 answers an index past the supplied arguments with \<open>undefined\<close>.
\<close>

definition args_index :: "'g FunctionCallbackInfo \<Rightarrow> nat \<Rightarrow> 'g js_value" where
  "args_index args i =
     (if i < length (arguments args) then arguments args ! i else JSUndefined)"

text \<open>
  \<open>value->ToString()\<close>: the runtime's string conversion, run in the state of the host.
  It yields a handle to a string, or the empty handle (\<open>None\<close>) when the conversion
  throws, which it does for a symbol and for an object whose own conversion throws. Only
  the conversion of an object runs code that can change the state of the host.
\<close>

fun ToString :: "'g js_value \<Rightarrow> 'g \<Rightarrow> string option \<times> 'g" where
  "ToString JSUndefined g = (Some ''undefined'', g)"
| "ToString JSNull g = (Some ''null'', g)"
| "ToString (JSBoolean b) g = (Some (if b then ''true'' else ''false''), g)"
| "ToString (JSNumber txt) g = (Some txt, g)"
| "ToString (JSString s) g = (Some s, g)"
| "ToString JSSymbol g = (None, g)"
| "ToString (JSObject conv) g = conv g"

text \<open>
  \<open>v8::String::Utf8Value nameFromArgs(h)\<close> followed by \<open>*nameFromArgs\<close>: a character
  pointer to a buffer holding the string's bytes and a terminating NUL, or the null
  pointer (\<open>None\<close>) when the handle is empty.
\<close>

definition Utf8Value :: "string option \<Rightarrow> string option" where
  "Utf8Value h = (case h of None \<Rightarrow> None | Some s \<Rightarrow> Some (s @ [CHR 0x00]))"

text \<open>
  \<open>std::string(p)\<close> for a character pointer \<open>p\<close>: the bytes at \<open>p\<close> up to, and
  without, the first NUL. On the null pointer the constructor does not return.
\<close>

definition std_string :: "string option \<Rightarrow> abort + string" where
  "std_string p =
     (case p of
        None \<Rightarrow> Inl NullCharPointer
      | Some buf \<Rightarrow> Inr (takeWhile (\<lambda>c. c \<noteq> CHR 0x00) buf))"

subsection \<open>Decoding UTF-8\<close>

text \<open>
  \<open>v8::String::NewFromUtf8\<close> decodes its bytes as UTF-8 and puts U+FFFD, the
  replacement character, wherever they are ill-formed. The well-formed sequences are
  those of the Unicode standard: a lead byte tells the length of its sequence, the
  second byte has a range that depends on the lead byte (which excludes overlong forms,
  surrogates and code points past U+10FFFF), and the other bytes are continuation
  bytes.
\<close>

definition sequence_length :: "char \<Rightarrow> nat" where
  "sequence_length b =
     (let n = (of_char b :: nat) in
      if n < 0x80 then 1
      else if 0xC2 \<le> n \<and> n \<le> 0xDF then 2
      else if 0xE0 \<le> n \<and> n \<le> 0xEF then 3
      else if 0xF0 \<le> n \<and> n \<le> 0xF4 then 4
      else 0)"

definition continuation :: "char \<Rightarrow> bool" where
  "continuation b \<longleftrightarrow> 0x80 \<le> (of_char b :: nat) \<and> (of_char b :: nat) \<le> 0xBF"

definition second_byte :: "char \<Rightarrow> char \<Rightarrow> bool" where
  "second_byte b b1 =
     (let n = (of_char b :: nat); n1 = (of_char b1 :: nat) in
      if n = 0xE0 then 0xA0 \<le> n1 \<and> n1 \<le> 0xBF
      else if n = 0xED then 0x80 \<le> n1 \<and> n1 \<le> 0x9F
      else if n = 0xF0 then 0x90 \<le> n1 \<and> n1 \<le> 0xBF
      else if n = 0xF4 then 0x80 \<le> n1 \<and> n1 \<le> 0x8F
      else 0x80 \<le> n1 \<and> n1 \<le> 0xBF)"

text \<open>U+FFFD, as the bytes \<open>Utf8Value\<close> would write for it.\<close>

definition U_FFFD :: string where
  "U_FFFD = [CHR 0xEF, CHR 0xBF, CHR 0xBD]"

text \<open>
  The string that the decoder makes of a byte sequence, in the representation of strings
  used here. A well-formed sequence stands for its code point and is kept. Where a
  sequence breaks off, what was read of it becomes one U+FFFD and decoding goes on at
  the byte that did not fit; so each of the three bytes \<open>ED A0 80\<close> of a lone
  surrogate, none of which can begin or continue a sequence there, becomes a U+FFFD of
  its own.
\<close>

fun utf8_decode :: "string \<Rightarrow> string" where
  "utf8_decode [] = []"
| "utf8_decode (b # bs) =
     (if sequence_length b = 1 then b # utf8_decode bs
      else if sequence_length b = 0 then U_FFFD @ utf8_decode bs
      else (case bs of
        [] \<Rightarrow> U_FFFD
      | b1 # bs1 \<Rightarrow>
          (if \<not> second_byte b b1 then U_FFFD @ utf8_decode bs
           else if sequence_length b = 2 then b # b1 # utf8_decode bs1
           else (case bs1 of
             [] \<Rightarrow> U_FFFD
           | b2 # bs2 \<Rightarrow>
               (if \<not> continuation b2 then U_FFFD @ utf8_decode bs1
                else if sequence_length b = 3 then b # b1 # b2 # utf8_decode bs2
                else (case bs2 of
                  [] \<Rightarrow> U_FFFD
                | b3 # bs3 \<Rightarrow>
                    (if \<not> continuation b3 then U_FFFD @ utf8_decode bs2
                     else b # b1 # b2 # b3 # utf8_decode bs3)))))))"

text \<open>
  Well-formed UTF-8: a sequence of complete, well-formed byte sequences. These are the
  strings of well-formed Unicode text, those without a lone surrogate.
\<close>

fun well_formed_utf8 :: "string \<Rightarrow> bool" where
  "well_formed_utf8 [] = True"
| "well_formed_utf8 (b # bs) =
     (if sequence_length b = 1 then well_formed_utf8 bs
      else if sequence_length b = 2 then
        (case bs of
           b1 # bs1 \<Rightarrow> second_byte b b1 \<and> well_formed_utf8 bs1
         | _ \<Rightarrow> False)
      else if sequence_length b = 3 then
        (case bs of
           b1 # b2 # bs2 \<Rightarrow> second_byte b b1 \<and> continuation b2 \<and> well_formed_utf8 bs2
         | _ \<Rightarrow> False)
      else if sequence_length b = 4 then
        (case bs of
           b1 # b2 # b3 # bs3 \<Rightarrow>
             second_byte b b1 \<and> continuation b2 \<and> continuation b3 \<and> well_formed_utf8 bs3
         | _ \<Rightarrow> False)
      else False)"

text \<open>
  \<open>Nan::New(response)\<close> on a \<open>std::string\<close> is \<open>v8::String::NewFromUtf8\<close> on its bytes.
  It yields a \<open>MaybeLocal\<close>: empty when the number of bytes is greater than V8's
  \<open>String::kMaxLength\<close>, the decoded string otherwise. That constant is declared in
  V8's headers and differs between releases (it is \<open>(1 << 28) - 16\<close> at least), so it
  is a parameter here.
\<close>

definition Nan_New :: "nat \<Rightarrow> string \<Rightarrow> 'g js_value option" where
  "Nan_New kMaxLength s =
     (if length s \<le> kMaxLength then Some (JSString (utf8_decode s)) else None)"

text \<open>\<open>m.ToLocalChecked()\<close>: the value of \<open>m\<close>; a fatal error when \<open>m\<close> is empty.\<close>

definition ToLocalChecked :: "'g js_value option \<Rightarrow> abort + 'g js_value" where
  "ToLocalChecked m = (case m of None \<Rightarrow> Inl EmptyMaybeLocal | Some v \<Rightarrow> Inr v)"

text \<open>\<open>args.GetReturnValue().Set(v)\<close>.\<close>

definition GetReturnValue_Set ::
  "'g FunctionCallbackInfo \<Rightarrow> 'g js_value \<Rightarrow> 'g FunctionCallbackInfo" where
  "GetReturnValue_Set args v = args\<lparr>return_value := v\<rparr>"

subsection \<open>The callback\<close>

text \<open>
  The conversion of the first argument runs in the isolate of the call and leaves its
  state there; the rest follows the source line by line.
\<close>

definition Method :: "nat \<Rightarrow> 'g FunctionCallbackInfo \<Rightarrow> abort + 'g FunctionCallbackInfo" where
  "Method kMaxLength args =
     (let (h, g) = ToString (args_index args 0) (isolate args);
          nameFromArgs = Utf8Value h in
      case std_string nameFromArgs of
        Inl a \<Rightarrow> Inl a
      | Inr name \<Rightarrow>
          (let response = ''hello '' @ name in
           case ToLocalChecked (Nan_New kMaxLength response) of
             Inl a \<Rightarrow> Inl a
           | Inr v \<Rightarrow> Inr (GetReturnValue_Set (args\<lparr>isolate := g\<rparr>) v)))"

text \<open>
  A call from JavaScript in the state \<open>g\<close> of the host: the host builds the callback's
  \<open>FunctionCallbackInfo\<close> from the arguments, with \<open>undefined\<close> in the return slot, runs
  the callback and gives the caller what the slot holds afterwards.
\<close>

definition invoke ::
  "('g FunctionCallbackInfo \<Rightarrow> abort + 'g FunctionCallbackInfo) \<Rightarrow> 'g \<Rightarrow> 'g js_value list \<Rightarrow>
   abort + 'g js_value" where
  "invoke callback g argv =
     (case callback \<lparr>isolate = g, arguments = argv, return_value = JSUndefined\<rparr> of
        Inl a \<Rightarrow> Inl a
      | Inr info \<Rightarrow> Inr (return_value info))"

subsection \<open>Registration\<close>

text \<open>
  \<^verbatim>\<open>
  void init(Local<Object> exports) {
    NODE_SET_METHOD(exports, "hello", Method);
  }

  NODE_MODULE(addon, init)
  \<close>
  \<open>NODE_SET_METHOD(recv, name, callback)\<close> of node.h makes a function from the callback,
  names it and stores it as the property \<open>name\<close> of \<open>recv\<close>. \<open>NODE_MODULE\<close> declares the
  module with its register function; loading the module runs that function on a fresh
  exports object.
\<close>

record 'g js_function =
  fn_name :: string
  fn_callback :: "'g FunctionCallbackInfo \<Rightarrow> abort + 'g FunctionCallbackInfo"

type_synonym 'g js_object = "string \<rightharpoonup> 'g js_function"

definition NODE_SET_METHOD ::
  "'g js_object \<Rightarrow> string \<Rightarrow> ('g FunctionCallbackInfo \<Rightarrow> abort + 'g FunctionCallbackInfo) \<Rightarrow>
   'g js_object" where
  "NODE_SET_METHOD recv name callback =
     recv(name \<mapsto> \<lparr>fn_name = name, fn_callback = callback\<rparr>)"

definition init :: "nat \<Rightarrow> 'g js_object \<Rightarrow> 'g js_object" where
  "init kMaxLength exports = NODE_SET_METHOD exports ''hello'' (Method kMaxLength)"

record 'g node_module =
  nm_modname :: string
  nm_register_func :: "nat \<Rightarrow> 'g js_object \<Rightarrow> 'g js_object"

definition NODE_MODULE ::
  "string \<Rightarrow> (nat \<Rightarrow> 'g js_object \<Rightarrow> 'g js_object) \<Rightarrow> 'g node_module" where
  "NODE_MODULE modname regfunc = \<lparr>nm_modname = modname, nm_register_func = regfunc\<rparr>"

definition addon :: "'g node_module" where
  "addon = NODE_MODULE ''addon'' init"

definition load_module :: "nat \<Rightarrow> 'g node_module \<Rightarrow> 'g js_object" where
  "load_module kMaxLength m = nm_register_func m kMaxLength Map.empty"

section \<open>What a call computes\<close>

text \<open>
  The part of a string that a C string read sees: everything before the first NUL.
\<close>

abbreviation before_NUL :: "string \<Rightarrow> string" where
  "before_NUL s \<equiv> takeWhile (\<lambda>c. c \<noteq> CHR 0x00) s"

lemma before_NUL_terminated: "before_NUL (s @ [CHR 0x00]) = before_NUL s"
  by (induction s) simp_all

lemma before_NUL_id: "CHR 0x00 \<notin> set s \<Longrightarrow> before_NUL s = s"
  by (induction s) auto

lemma before_NUL_replicate:
  "c \<noteq> CHR 0x00 \<Longrightarrow> before_NUL (replicate n c @ s) = replicate n c @ before_NUL s"
  by (simp add: takeWhile_append)

lemma std_string_Utf8Value:
  "std_string (Utf8Value h) =
     (case h of None \<Rightarrow> Inl NullCharPointer | Some s \<Rightarrow> Inr (before_NUL s))"
  by (simp add: std_string_def Utf8Value_def before_NUL_terminated split: option.split)

subsection \<open>The decoder on well-formed text\<close>

lemma sequence_length_cases:
  "sequence_length b = 0 \<or> sequence_length b = 1 \<or> sequence_length b = 2 \<or>
   sequence_length b = 3 \<or> sequence_length b = 4"
  by (simp add: sequence_length_def Let_def)

lemma utf8_decode_well_formed: "well_formed_utf8 s \<Longrightarrow> utf8_decode s = s"
proof (induction s rule: well_formed_utf8.induct)
  case 1
  then show ?case by simp
next
  case (2 b bs)
  consider "sequence_length b = 0" | "sequence_length b = 1" | "sequence_length b = 2"
    | "sequence_length b = 3" | "sequence_length b = 4"
    using sequence_length_cases [of b] by auto
  then show ?case
  proof cases
    case 1
    with "2.prems" show ?thesis by simp
  next
    case 2
    with "2.prems" "2.IH"(1) show ?thesis by simp
  next
    case 3
    with "2.prems" obtain b1 bs1 where bs: "bs = b1 # bs1" and ok: "second_byte b b1"
      and wf: "well_formed_utf8 bs1"
      by (cases bs) auto
    from "2.IH"(2) [OF _ 3 bs] wf 3 have "utf8_decode bs1 = bs1" by simp
    with 3 bs ok show ?thesis by simp
  next
    case 4
    with "2.prems" obtain b1 b2 bs2 where bs: "bs = b1 # b2 # bs2" and ok: "second_byte b b1"
      and c2: "continuation b2" and wf: "well_formed_utf8 bs2"
      by (cases bs; cases "tl bs") auto
    from "2.IH"(3) [OF _ _ 4 bs] wf 4 have "utf8_decode bs2 = bs2" by simp
    with 4 bs ok c2 show ?thesis by simp
  next
    case 5
    with "2.prems" obtain b1 b2 b3 bs3 where bs: "bs = b1 # b2 # b3 # bs3"
      and ok: "second_byte b b1" and c2: "continuation b2" and c3: "continuation b3"
      and wf: "well_formed_utf8 bs3"
      by (cases bs; cases "tl bs"; cases "tl (tl bs)") auto
    from "2.IH"(4) [OF _ _ _ 5 bs] wf 5 have "utf8_decode bs3 = bs3" by simp
    with 5 bs ok c2 c3 show ?thesis by simp
  qed
qed

lemma utf8_decode_hello: "utf8_decode (''hello '' @ s) = ''hello '' @ utf8_decode s"
  by (simp add: sequence_length_def)

lemma before_NUL_hello: "before_NUL (''hello '' @ s) = ''hello '' @ before_NUL s"
  by simp

text \<open>
  The greeting of a string is never that string: it would have to begin with "hello "
  followed by the greeting of its own rest.
\<close>

lemma greeting_differs: "''hello '' @ utf8_decode (before_NUL s) \<noteq> s"
proof (induction "length s" arbitrary: s rule: less_induct)
  case less
  show ?case
  proof
    assume eq: "''hello '' @ utf8_decode (before_NUL s) = s"
    define x where "x = utf8_decode (before_NUL s)"
    have s: "s = ''hello '' @ x"
      using eq by (simp only: x_def)
    have cut: "before_NUL s = ''hello '' @ before_NUL x"
      by (subst s) (rule before_NUL_hello)
    have "x = utf8_decode (before_NUL s)"
      by (rule x_def)
    also have "\<dots> = utf8_decode (''hello '' @ before_NUL x)"
      by (simp only: cut)
    also have "\<dots> = ''hello '' @ utf8_decode (before_NUL x)"
      by (rule utf8_decode_hello)
    finally have "''hello '' @ utf8_decode (before_NUL x) = x"
      by (rule sym)
    moreover have "length x < length s"
      by (subst s) simp
    ultimately show False
      using less [of x] by blast
  qed
qed

subsection \<open>The callback in closed form\<close>

text \<open>
  By the outcome of the conversion of the first argument: the greeting is the decoded
  "hello " and text up to its first NUL, when that is no more than \<open>kMaxLength\<close> bytes.
\<close>

lemma Method_converted:
  assumes "ToString (args_index args 0) (isolate args) = (Some t, g)"
  shows "Method kMaxLength args =
    (if length (''hello '' @ before_NUL t) \<le> kMaxLength
     then Inr (args\<lparr>isolate := g,
            return_value := JSString (''hello '' @ utf8_decode (before_NUL t))\<rparr>)
     else Inl EmptyMaybeLocal)"
  using assms
  by (simp add: Method_def std_string_Utf8Value Nan_New_def ToLocalChecked_def
      GetReturnValue_Set_def sequence_length_def)

lemma Method_not_converted:
  assumes "ToString (args_index args 0) (isolate args) = (None, g)"
  shows "Method kMaxLength args = Inl NullCharPointer"
  using assms by (simp add: Method_def std_string_Utf8Value)

lemma args_index_first: "arguments args = v # rest \<Longrightarrow> args_index args 0 = v"
  by (simp add: args_index_def)

lemma args_index_missing: "arguments args = [] \<Longrightarrow> args_index args 0 = JSUndefined"
  by (simp add: args_index_def)

lemma Method_String:
  assumes "arguments args = JSString s # rest"
  shows "Method kMaxLength args =
    (if length (''hello '' @ before_NUL s) \<le> kMaxLength
     then Inr (args\<lparr>return_value := JSString (''hello '' @ utf8_decode (before_NUL s))\<rparr>)
     else Inl EmptyMaybeLocal)"
proof -
  have "ToString (args_index args 0) (isolate args) = (Some s, isolate args)"
    using assms by (simp add: args_index_first)
  from Method_converted [OF this, of kMaxLength] show ?thesis by simp
qed

lemma invoke_converted:
  assumes "ToString v g = (Some t, g')"
  shows "invoke (Method kMaxLength) g (v # rest) =
    (if length (''hello '' @ before_NUL t) \<le> kMaxLength
     then Inr (JSString (''hello '' @ utf8_decode (before_NUL t)))
     else Inl EmptyMaybeLocal)"
proof -
  let ?info = "\<lparr>isolate = g, arguments = v # rest, return_value = JSUndefined\<rparr>"
  have "ToString (args_index ?info 0) (isolate ?info) = (Some t, g')"
    using assms by (simp add: args_index_first)
  from Method_converted [OF this, of kMaxLength] show ?thesis
    by (simp add: invoke_def)
qed

lemma invoke_String:
  "invoke (Method kMaxLength) g (JSString s # rest) =
    (if length (''hello '' @ before_NUL s) \<le> kMaxLength
     then Inr (JSString (''hello '' @ utf8_decode (before_NUL s)))
     else Inl EmptyMaybeLocal)"
  by (rule invoke_converted) simp

lemma invoke_missing:
  "invoke (Method kMaxLength) g [] =
    (if length ''hello undefined'' \<le> kMaxLength
     then Inr (JSString ''hello undefined'') else Inl EmptyMaybeLocal)"
proof -
  let ?info = "\<lparr>isolate = g, arguments = [], return_value = JSUndefined\<rparr>"
  have "ToString (args_index ?info 0) (isolate ?info) = (Some ''undefined'', g)"
    by (simp add: args_index_missing)
  from Method_converted [OF this, of kMaxLength] show ?thesis
    by (simp add: invoke_def sequence_length_def)
qed

lemma invoke_not_converted:
  assumes "ToString v g = (None, g')"
  shows "invoke (Method kMaxLength) g (v # rest) = Inl NullCharPointer"
proof -
  let ?info = "\<lparr>isolate = g, arguments = v # rest, return_value = JSUndefined\<rparr>"
  have "ToString (args_index ?info 0) (isolate ?info) = (None, g')"
    using assms by (simp add: args_index_first)
  from Method_not_converted [OF this] show ?thesis
    by (simp add: invoke_def)
qed


section \<open>The examples of the specification\<close>

text \<open>
  C6. Calling the greeting function with the empty string returns exactly "hello ", the
  prefix alone with its trailing space. (The six bytes fit \<open>String::kMaxLength\<close> of
  every V8 release.)
\<close>

theorem hello_empty_string:
  assumes "6 \<le> kMaxLength"
  shows "invoke (Method kMaxLength) g [JSString ''''] = Inr (JSString ''hello '')"
  using assms by (simp add: invoke_String)

theorem hello_empty_string_witness:
  "(6::nat) \<le> 268435440 \<and>
   invoke (Method 268435440) () [JSString ''''] = Inr (JSString ''hello '')"
  using hello_empty_string [of 268435440 "()"] by simp

text \<open>
  C7. Calling the greeting function with the input "world" returns the output
  "hello world".
\<close>

theorem hello_world:
  assumes "11 \<le> kMaxLength"
  shows "invoke (Method kMaxLength) g [JSString ''world''] = Inr (JSString ''hello world'')"
  using assms by (simp add: invoke_String sequence_length_def)

theorem hello_world_witness:
  "(11::nat) \<le> 268435440 \<and>
   invoke (Method 268435440) () [JSString ''world''] = Inr (JSString ''hello world'')"
  using hello_world [of 268435440 "()"] by simp

section \<open>Strings as arguments\<close>

text \<open>
  C1, as amended. For every string \<open>s\<close> of well-formed Unicode text (no lone surrogate)
  that contains no NUL, and for which \<open>"hello " + s\<close> is no more than
  \<open>String::kMaxLength\<close> bytes of UTF-8, calling the function with \<open>s\<close> returns
  \<open>"hello " + s\<close>.
\<close>

theorem hello_prefix:
  assumes "well_formed_utf8 s"
    and "CHR 0x00 \<notin> set s"
    and "length (''hello '' @ s) \<le> kMaxLength"
  shows "invoke (Method kMaxLength) g (JSString s # rest) = Inr (JSString (''hello '' @ s))"
  using assms by (simp add: invoke_String before_NUL_id utf8_decode_well_formed)

text \<open>The witness is "cafe" with an acute accent, whose last letter is the two bytes \<open>C3 A9\<close>.\<close>

theorem hello_prefix_witness:
  "well_formed_utf8 (''caf'' @ [CHR 0xC3, CHR 0xA9]) \<and>
   CHR 0x00 \<notin> set (''caf'' @ [CHR 0xC3, CHR 0xA9]) \<and>
   length (''hello '' @ ''caf'' @ [CHR 0xC3, CHR 0xA9]) \<le> 268435440 \<and>
   invoke (Method 268435440) () [JSString (''caf'' @ [CHR 0xC3, CHR 0xA9])] =
     Inr (JSString (''hello caf'' @ [CHR 0xC3, CHR 0xA9]))"
proof -
  have wf: "well_formed_utf8 (''caf'' @ [CHR 0xC3, CHR 0xA9])"
    by (simp add: sequence_length_def second_byte_def)
  have nul: "CHR 0x00 \<notin> set (''caf'' @ [CHR 0xC3, CHR 0xA9])"
    by simp
  have len: "length (''hello '' @ ''caf'' @ [CHR 0xC3, CHR 0xA9]) \<le> 268435440"
    by simp
  from hello_prefix [OF wf nul len, of "()" "[]"] wf show ?thesis by simp
qed

text \<open>
  The claim as the specification states it, for every string, fails on a string with a
  NUL inside: "a", NUL, "b" is answered by "hello a".
\<close>

theorem hello_prefix_counterexample:
  "invoke (Method 268435440) () [JSString [CHR ''a'', CHR 0x00, CHR ''b'']] =
     Inr (JSString ''hello a'') \<and>
   ''hello a'' \<noteq> ''hello '' @ [CHR ''a'', CHR 0x00, CHR ''b'']"
  by (simp add: invoke_String sequence_length_def)

text \<open>
  A string that is not well-formed text does not come back as it went in. The lone
  surrogate U+D800 reaches the decoder as the bytes \<open>ED A0 80\<close>, and the greeting
  holds three replacement characters in its place.
\<close>

lemma lone_surrogate_replaced:
  "invoke (Method 268435440) () [JSString [CHR 0xED, CHR 0xA0, CHR 0x80]] =
   Inr (JSString (''hello '' @ U_FFFD @ U_FFFD @ U_FFFD))"
  by (simp add: invoke_String sequence_length_def second_byte_def continuation_def U_FFFD_def)

text \<open>
  C2, as amended. For a string argument the call completes normally exactly when the
  greeting, "hello " and the argument up to its first NUL, is no more than
  \<open>String::kMaxLength\<close> bytes of UTF-8; a greeting of more bytes ends in the fatal
  error of \<open>ToLocalChecked\<close>.
\<close>

theorem string_call_completes:
  "((\<exists>v. invoke (Method kMaxLength) g (JSString s # rest) = Inr v) \<longleftrightarrow>
      length (''hello '' @ before_NUL s) \<le> kMaxLength) \<and>
   ((\<nexists>v. invoke (Method kMaxLength) g (JSString s # rest) = Inr v) \<longleftrightarrow>
      invoke (Method kMaxLength) g (JSString s # rest) = Inl EmptyMaybeLocal)"
  using invoke_String [of kMaxLength g s rest]
  by (simp del: utf8_decode.simps split: if_splits)

theorem string_call_completes_witness:
  "\<exists>v. invoke (Method 268435440) () [JSString ''node''] = Inr v"
  using string_call_completes [of 268435440 "()" "''node''" "[]"] by simp

text \<open>
  A string of \<open>(1 << 28) - 16\<close> letters is as long as a string of V8 can be where that is
  \<open>String::kMaxLength\<close>; its greeting is six bytes longer, and the call aborts.
\<close>

theorem string_call_completes_counterexample:
  "invoke (Method 268435440) () [JSString (replicate 268435440 (CHR ''a''))] =
   Inl EmptyMaybeLocal"
  using invoke_String [of 268435440 "()" "replicate 268435440 (CHR ''a'')" "[]"]
    before_NUL_replicate [of "CHR ''a''" 268435440 "[]"]
  by simp

text \<open>
  C4, as amended. For every input string that contains a NUL, \<open>p\<close> being the portion
  before the first NUL: when \<open>p\<close> is well-formed Unicode text (no lone surrogate) and
  "hello " followed by \<open>p\<close> is no more than \<open>String::kMaxLength\<close> bytes of UTF-8, the
  value returned is "hello " followed by \<open>p\<close> only.
\<close>

theorem hello_cut_at_NUL:
  assumes "s = p @ CHR 0x00 # q"
    and "CHR 0x00 \<notin> set p"
    and "well_formed_utf8 p"
    and "length (''hello '' @ p) \<le> kMaxLength"
  shows "invoke (Method kMaxLength) g (JSString s # rest) = Inr (JSString (''hello '' @ p))"
proof -
  have "before_NUL s = p"
    using assms(1,2) by (simp add: takeWhile_append before_NUL_id)
  then show ?thesis
    using assms(3,4) by (simp add: invoke_String utf8_decode_well_formed)
qed

theorem hello_cut_at_NUL_witness:
  "''ab'' @ CHR 0x00 # ''cd'' = ''ab'' @ CHR 0x00 # ''cd'' \<and> CHR 0x00 \<notin> set ''ab'' \<and>
   well_formed_utf8 ''ab'' \<and> length (''hello '' @ ''ab'') \<le> 268435440 \<and>
   invoke (Method 268435440) () [JSString (''ab'' @ CHR 0x00 # ''cd'')] =
     Inr (JSString ''hello ab'')"
proof -
  have wf: "well_formed_utf8 ''ab''"
    by (simp add: sequence_length_def)
  from hello_cut_at_NUL [of "''ab'' @ CHR 0x00 # ''cd''" "''ab''" "''cd''" 268435440 "()" "[]"] wf
  show ?thesis by simp
qed

text \<open>
  Without the bound the claim fails: \<open>(1 << 28) - 17\<close> letters and a NUL make a string of
  the greatest length V8 has there, and the greeting of its letters is too long to be
  returned.
\<close>

theorem hello_cut_at_NUL_counterexample:
  "invoke (Method 268435440) () [JSString (replicate 268435439 (CHR ''a'') @ [CHR 0x00])] =
   Inl EmptyMaybeLocal"
  using invoke_String [of 268435440 "()" "replicate 268435439 (CHR ''a'') @ [CHR 0x00]" "[]"]
    before_NUL_replicate [of "CHR ''a''" 268435439 "[CHR 0x00]"]
  by simp

text \<open>
  C8, as amended. For every string input, a value that the exported function returns is
  a string, and it returns one whenever the greeting, "hello " and the input up to its
  first NUL, is no more than \<open>String::kMaxLength\<close> bytes of UTF-8.
\<close>

theorem string_in_string_out:
  "(\<forall>v. invoke (Method kMaxLength) g (JSString s # rest) = Inr v \<longrightarrow> (\<exists>t. v = JSString t)) \<and>
   (length (''hello '' @ before_NUL s) \<le> kMaxLength \<longrightarrow>
      (\<exists>t. invoke (Method kMaxLength) g (JSString s # rest) = Inr (JSString t)))"
  using invoke_String [of kMaxLength g s rest]
  by (simp del: utf8_decode.simps split: if_splits)

theorem string_in_string_out_witness:
  "\<exists>t. invoke (Method 268435440) () [JSString ''node''] = Inr (JSString t)"
  using string_in_string_out [of 268435440 "()" "''node''" "[]"] by simp

text \<open>
  For a string five letters short of the greatest length no value comes back, so no
  string does.
\<close>

theorem string_in_string_out_counterexample:
  "invoke (Method 268435440) () [JSString (replicate 268435435 (CHR ''z''))] =
   Inl EmptyMaybeLocal"
  using invoke_String [of 268435440 "()" "replicate 268435435 (CHR ''z'')" "[]"]
    before_NUL_replicate [of "CHR ''z''" 268435435 "[]"]
  by simp


section \<open>Effects of a call\<close>

text \<open>
  What a call can touch is the \<open>FunctionCallbackInfo\<close>: the isolate, that is the state
  the host shares with all other code, the arguments and the return slot. A call on an
  object runs the object's conversion and leaves the isolate as that code left it; here
  a conversion that counts its runs in the state of the host.
\<close>

lemma conversion_changes_isolate:
  "Method 268435440
     \<lparr>isolate = (0::nat), arguments = [JSObject (\<lambda>n. (Some ''x'', Suc n))],
      return_value = JSUndefined\<rparr> =
   Inr \<lparr>isolate = 1, arguments = [JSObject (\<lambda>n. (Some ''x'', Suc n))],
        return_value = JSString ''hello x''\<rparr>"
proof -
  let ?args = "\<lparr>isolate = (0::nat), arguments = [JSObject (\<lambda>n. (Some ''x'', Suc n))],
      return_value = JSUndefined\<rparr>"
  have "ToString (args_index ?args 0) (isolate ?args) = (Some ''x'', 1)"
    by (simp add: args_index_def)
  from Method_converted [OF this, of 268435440] show ?thesis
    by (simp add: sequence_length_def)
qed




text \<open>
  C9, as amended. On a string whose greeting, "hello " and the string up to its first
  NUL, is no more than \<open>String::kMaxLength\<close> bytes of UTF-8, the greeting function
  returns a new string and leaves its argument unchanged: the arguments the caller
  passed are the same after the call as before it, and the string that is returned is
  another one than the input string.
\<close>

theorem Method_keeps_argument:
  assumes "arguments args = JSString s # rest"
    and "length (''hello '' @ before_NUL s) \<le> kMaxLength"
  shows "\<exists>args' t. Method kMaxLength args = Inr args' \<and>
           arguments args' = JSString s # rest \<and>
           return_value args' = JSString t \<and> t \<noteq> s"
proof -
  let ?t = "''hello '' @ utf8_decode (before_NUL s)"
  from Method_String [OF assms(1), of kMaxLength] assms(2)
  have "Method kMaxLength args = Inr (args\<lparr>return_value := JSString ?t\<rparr>)"
    by (simp del: utf8_decode.simps)
  moreover have "arguments (args\<lparr>return_value := JSString ?t\<rparr>) = JSString s # rest"
    using assms(1) by simp
  moreover have "return_value (args\<lparr>return_value := JSString ?t\<rparr>) = JSString ?t"
    by simp
  moreover have "?t \<noteq> s"
    by (rule greeting_differs)
  ultimately show ?thesis by blast
qed

theorem Method_keeps_argument_witness:
  "\<exists>args' t. Method 268435440
       \<lparr>isolate = (), arguments = [JSString ''node''], return_value = JSUndefined\<rparr> = Inr args' \<and>
     arguments args' = [JSString ''node''] \<and>
     return_value args' = JSString t \<and> t \<noteq> ''node''"
  using Method_keeps_argument [of "\<lparr>isolate = (), arguments = [JSString ''node''],
      return_value = JSUndefined\<rparr>" "''node''" "[]" 268435440]
  by simp

text \<open>
  Without the bound the claim fails: on a string three letters short of the greatest
  length no new string is returned, and there is no state after the call in which the
  argument could be looked at.
\<close>

theorem Method_keeps_argument_counterexample:
  "Method 268435440
     \<lparr>isolate = (), arguments = [JSString (replicate 268435437 (CHR ''k''))],
      return_value = JSUndefined\<rparr> =
   Inl EmptyMaybeLocal"
proof -
  let ?args = "\<lparr>isolate = (), arguments = [JSString (replicate 268435437 (CHR ''k''))],
      return_value = JSUndefined\<rparr>"
  have "arguments ?args = JSString (replicate 268435437 (CHR ''k'')) # []"
    by simp
  from Method_String [OF this, of 268435440]
    before_NUL_replicate [of "CHR ''k''" 268435437 "[]"]
  show ?thesis by simp
qed

section \<open>Registration of the callback\<close>

text \<open>
  C3. At module load time the greeting function is registered in the host's exports
  object under the fixed name "hello", and no other function is exported: \<open>init\<close> adds
  the property "hello", holding \<open>Method\<close>, and touches no other property, so the exports
  of the loaded module are that one function.
\<close>

theorem init_exports_hello:
  "init kMaxLength exports =
     exports(''hello'' \<mapsto> \<lparr>fn_name = ''hello'', fn_callback = Method kMaxLength\<rparr>) \<and>
   load_module kMaxLength addon ''hello'' =
     Some \<lparr>fn_name = ''hello'', fn_callback = Method kMaxLength\<rparr> \<and>
   dom (load_module kMaxLength addon) = {''hello''}"
  by (simp add: init_def NODE_SET_METHOD_def load_module_def addon_def NODE_MODULE_def)

section \<open>Arguments that are not strings\<close>

text \<open>
  C10, as amended. When the greeting function is called with a missing argument, or with
  an argument that the runtime's string conversion turns into a string (\<open>undefined\<close>,
  \<open>null\<close>, a boolean, a number, an object whose conversion succeeds), it does not
  raise an error but returns "hello " followed by the conversion's text up to its first
  NUL, provided that this text is well-formed Unicode text (no lone surrogate) and the
  greeting is no more than \<open>String::kMaxLength\<close> bytes of UTF-8. A call with no
  argument returns "hello undefined".
\<close>

theorem hello_coerces:
  "(length ''hello undefined'' \<le> kMaxLength \<longrightarrow>
      invoke (Method kMaxLength) g [] = Inr (JSString ''hello undefined'')) \<and>
   (ToString v g = (Some t, g') \<and> well_formed_utf8 (before_NUL t) \<and>
    length (''hello '' @ before_NUL t) \<le> kMaxLength \<longrightarrow>
      invoke (Method kMaxLength) g (v # rest) = Inr (JSString (''hello '' @ before_NUL t)))"
proof (intro conjI impI)
  assume "length ''hello undefined'' \<le> kMaxLength"
  then show "invoke (Method kMaxLength) g [] = Inr (JSString ''hello undefined'')"
    by (simp add: invoke_missing)
next
  assume a: "ToString v g = (Some t, g') \<and> well_formed_utf8 (before_NUL t) \<and>
    length (''hello '' @ before_NUL t) \<le> kMaxLength"
  then have "ToString v g = (Some t, g')" by simp
  from invoke_converted [OF this, of kMaxLength rest] a
  show "invoke (Method kMaxLength) g (v # rest) = Inr (JSString (''hello '' @ before_NUL t))"
    by (simp add: utf8_decode_well_formed del: utf8_decode.simps)
qed

theorem hello_coerces_witness:
  "invoke (Method 268435440) () [] = Inr (JSString ''hello undefined'') \<and>
   invoke (Method 268435440) () [JSNull] = Inr (JSString ''hello null'') \<and>
   invoke (Method 268435440) () [JSBoolean True] = Inr (JSString ''hello true'') \<and>
   invoke (Method 268435440) () [JSNumber ''42''] = Inr (JSString ''hello 42'') \<and>
   invoke (Method 268435440) () [JSObject (\<lambda>g. (Some ''[object Object]'', g))] =
     Inr (JSString ''hello [object Object]'')"
  using hello_coerces [of 268435440 "()" JSNull "''null''" "()" "[]"]
    hello_coerces [of 268435440 "()" "JSBoolean True" "''true''" "()" "[]"]
    hello_coerces [of 268435440 "()" "JSNumber ''42''" "''42''" "()" "[]"]
    hello_coerces [of 268435440 "()" "JSObject (\<lambda>g. (Some ''[object Object]'', g))"
      "''[object Object]''" "()" "[]"]
  by (simp add: sequence_length_def)

text \<open>
  For a symbol the conversion throws: \<open>ToString\<close> gives the empty handle, the
  \<open>Utf8Value\<close> holds the null pointer and the \<open>std::string\<close> constructor is run on it.
  The call does not return "hello " and a text.
\<close>

theorem hello_coerces_counterexample:
  "invoke (Method 268435440) () [JSSymbol] = Inl NullCharPointer"
  by (rule invoke_not_converted) simp

end
